theory Spec2Isabelle
  imports Main "HOL-Library.Word"
begin

section \<open>The artifact build pipeline of clice (Compiler.cpp)\<close>

text \<open>
  The pipeline drives the clang frontend: it creates a compiler instance from command
  line arguments, writes options into it, and runs one frontend action. The options and
  the control flow are the repository's code and are embedded here function by function.
  The frontend itself (clang) is a library outside the repository: each of its entry
  points the code calls is a field of the record \<open>Frontend\<close>, and every theorem holds for
  every value of that record.
\<close>

subsection \<open>Data of the frontend that the code reads and writes\<close>

text \<open>
  \<open>clang::frontend::ActionKind\<close>: the three members the source names, and further
  members of the enumeration (a caller of \<open>ExecuteAction\<close> could pass any of them).
\<close>

datatype ActionKind =
    ASTDump
  | ASTPrint
  | EmitObj
  | GenerateModule
  | GenerateModuleInterface
  | GenerateReducedModuleInterface
  | GenerateHeaderUnit
  | GeneratePCH
  | ParseSyntaxOnly
  | PrintPreprocessedInput
  | RunPreprocessorOnly

text \<open>The action objects \<open>ExecuteAction\<close> constructs (subclasses of \<open>ASTFrontendAction\<close>).\<close>

datatype ASTFrontendAction =
    SyntaxOnlyAction
  | GeneratePCHAction
  | GenerateReducedModuleInterfaceAction

datatype DisableValidationForModuleKind =
    DisableValidation_None
  | DisableValidation_PCH
  | DisableValidation_Module
  | DisableValidation_All

text \<open>\<open>clang::PreambleBounds\<close>: \<open>unsigned Size; bool PreambleEndsAtStartOfLine\<close>.\<close>

record PreambleBounds =
  Size :: "32 word"
  PreambleEndsAtStartOfLine :: bool

record ParsedSourceLocation =
  FileName :: string
  Line :: "32 word"
  Column :: "32 word"

record FrontendOptions =
  DisableFree :: bool
  OutputFile :: string
  ProgramAction :: ActionKind
  Inputs :: "string list"
  CodeCompletionAt :: ParsedSourceLocation

text \<open>\<open>ParseAllComments\<close> is the field of \<open>LangOptions::CommentOpts\<close>.\<close>

record LangOptions =
  ParseAllComments :: bool
  RetainCommentsFromSystemHeaders :: bool
  CompilingPCH :: bool

text \<open>
  \<open>RemappedFileBuffers\<close> is the vector of (path, buffer) pairs that \<open>addRemappedFile\<close>
  appends to; a buffer is its text.
\<close>

record PreprocessorOptions =
  UsePredefines :: bool
  ImplicitPCHInclude :: string
  PrecompiledPreambleBytes :: "32 word \<times> bool"
  DisablePCHOrModuleValidation :: DisableValidationForModuleKind
  GeneratePreamble :: bool
  RemappedFileBuffers :: "(string \<times> string) list"

text \<open>\<open>PrebuiltModuleFiles\<close> is a \<open>std::map\<close> from module name to file path.\<close>

record HeaderSearchOptions =
  PrebuiltModuleFiles :: "string \<rightharpoonup> string"

record CompilerInvocation =
  invFrontendOpts :: FrontendOptions
  invLangOpts :: LangOptions
  invPreprocessorOpts :: PreprocessorOptions
  invHeaderSearchOpts :: HeaderSearchOptions

datatype DiagnosticConsumer = TextDiagnosticPrinter

text \<open>
  The compiler instance: the options of its invocation, its diagnostics client, the
  preprocessor object it currently holds (an object identity; none before the frontend
  creates one) and the code completion consumer (an object identity).
\<close>

record CompilerInstance =
  FrontendOpts :: FrontendOptions
  LangOpts :: LangOptions
  PreprocessorOpts :: PreprocessorOptions
  HeaderSearchOpts :: HeaderSearchOptions
  Diagnostics :: "DiagnosticConsumer option"
  Preprocessor :: "nat option"
  CodeCompletionConsumer :: "nat option"

type_synonym Token = string

text \<open>\<open>clang::syntax::TokenCollector\<close>, constructed on a preprocessor object.\<close>

record TokenCollector =
  collectorPP :: nat

text \<open>
  \<open>clang::syntax::TokenBuffer\<close>: the expanded token stream, and whether
  \<open>indexExpandedTokens\<close> has built the index over it.
\<close>

record TokenBuffer =
  expandedTokens :: "Token list"
  expandedTokIndexed :: bool

subsection \<open>The frontend library\<close>

text \<open>
  The calls into clang, as functions of what they are given:
  \<^item> \<open>createInvocation args\<close>: \<open>clang::createInvocation\<close>; it returns a null pointer
    (\<open>None\<close>) for arguments it rejects;
  \<^item> \<open>createTarget ci\<close>: \<open>CompilerInstance::createTarget\<close>; \<open>None\<close> is the result
    \<open>false\<close>, otherwise the instance with its target set;
  \<^item> \<open>BeginSourceFile act ci infile\<close>: \<open>FrontendAction::BeginSourceFile\<close>; \<open>None\<close> is the
    result \<open>false\<close>, otherwise the instance as the call leaves it (it may hold a new
    preprocessor);
  \<^item> \<open>Execute act ci\<close>: \<open>FrontendAction::Execute\<close>; \<open>Inl cause\<close> is a returned
    \<open>llvm::Error\<close>, otherwise the instance after the run;
  \<^item> \<open>lexedTokens act ci pp\<close>: the tokens the preprocessor object \<open>pp\<close> reports to a
    collector installed on it while \<open>Execute act ci\<close> runs;
  \<^item> \<open>ComputePreamble text langOpts maxLines\<close>: \<open>clang::Lexer::ComputePreamble\<close>.
\<close>

record Frontend =
  createInvocation :: "string list \<Rightarrow> CompilerInvocation option"
  createTarget :: "CompilerInstance \<Rightarrow> CompilerInstance option"
  BeginSourceFile :: "ASTFrontendAction \<Rightarrow> CompilerInstance \<Rightarrow> string \<Rightarrow> CompilerInstance option"
  Execute :: "ASTFrontendAction \<Rightarrow> CompilerInstance \<Rightarrow> string + CompilerInstance"
  lexedTokens :: "ASTFrontendAction \<Rightarrow> CompilerInstance \<Rightarrow> nat \<Rightarrow> Token list"
  ComputePreamble :: "string \<Rightarrow> LangOptions \<Rightarrow> nat \<Rightarrow> PreambleBounds"

subsection \<open>Data of the repository\<close>

text \<open>
  Modelled from the spec: \<open>Compiler/Compiler.h\<close>, which declares \<open>CompliationParams\<close>,
  \<open>ASTInfo\<close>, \<open>PCHInfo\<close> and \<open>PCMInfo\<close>, is not among the sources. The fields of
  \<open>CompliationParams\<close> are the ones the code reads; \<open>pcms\<close> is the sequence of
  (name, path) pairs the loop of \<open>applyPreamble\<close> walks.
\<close>

record CompliationParams =
  content :: string
  path :: string
  outpath :: string
  mainpath :: string
  args :: "string list"
  pch :: string
  bounds :: PreambleBounds
  pcms :: "(string \<times> string) list"

text \<open>
  Modelled from the spec: \<open>ASTInfo\<close> owns the finished action, the instance it ran in
  and an optional token buffer (\<open>None\<close> is the null pointer), in the order of the
  constructor call \<open>ASTInfo(action, instance, tokBuf)\<close>.
\<close>

record ASTInfo =
  action :: ASTFrontendAction
  compiler :: CompilerInstance
  tokBuf :: "TokenBuffer option"

text \<open>
  Modelled from the spec: \<open>PCHInfo\<close> holds the arguments of the constructor call
  \<open>PCHInfo(info, outpath, content, mainpath, bounds)\<close>, and \<open>PCMInfo\<close> those of
  \<open>PCMInfo(info, outpath)\<close>.
\<close>

record PCHInfo =
  pchAST :: ASTInfo
  pchPath :: string
  pchContent :: string
  pchMainpath :: string
  pchBounds :: PreambleBounds

record PCMInfo =
  pcmAST :: ASTInfo
  pcmPath :: string

text \<open>
  How a call ends. \<open>Value\<close> and \<open>Error\<close> are the two states of the returned
  \<open>llvm::Expected\<close>. \<open>Error fmt arguments\<close> is the error made by the call
  \<open>clice::error(fmt, arguments...)\<close>: its format string and the messages of its arguments
  (the helper that formats them is not among the sources). \<open>Fatal\<close> is a call that does
  not return because the process stops:
  \<open>std::terminate\<close> in the source (\<open>UnsupportedActionKind\<close>, \<open>PreambleOfOtherMainFile\<close>),
  or an unchecked access the source makes on something absent (the null invocation, the
  element 0 of an empty \<open>Inputs\<close>, the preprocessor of an instance that has none).
\<close>

datatype FatalCause =
    NullInvocation
  | UnsupportedActionKind
  | NoInputFile
  | NoPreprocessor
  | PreambleOfOtherMainFile

datatype 'a Outcome =
    Value 'a
  | Error string "string list"
  | Fatal FatalCause

subsection \<open>Session construction\<close>

text \<open>
  \<open>adjustInvocation\<close> is called on the invocation of the instance
  (\<open>instance->getInvocation()\<close>), whose options are the option fields of
  \<open>CompilerInstance\<close> here.
\<close>

definition adjustInvocation :: "CompilerInstance \<Rightarrow> CompilerInstance" where
  "adjustInvocation invocation =
     (let invocation = invocation\<lparr>FrontendOpts := (FrontendOpts invocation)\<lparr>DisableFree := False\<rparr>\<rparr>;
          invocation = invocation\<lparr>LangOpts := (LangOpts invocation)\<lparr>ParseAllComments := True\<rparr>\<rparr>;
          invocation = invocation\<lparr>LangOpts := (LangOpts invocation)\<lparr>RetainCommentsFromSystemHeaders := True\<rparr>\<rparr>
      in invocation)"

text \<open>
  \<open>setInvocation\<close> installs the options of the created invocation, \<open>createDiagnostics\<close>
  the diagnostics client. \<open>None\<close>: \<open>getInvocation\<close> on the null invocation does not
  return (\<open>Fatal NullInvocation\<close> in the entry points).
\<close>

definition createInstance :: "Frontend \<Rightarrow> string list \<Rightarrow> CompilerInstance option" where
  "createInstance fe arguments =
     (case createInvocation fe arguments of
        None \<Rightarrow> None
      | Some invocation \<Rightarrow>
          (let ci = \<lparr>FrontendOpts = invFrontendOpts invocation,
                      LangOpts = invLangOpts invocation,
                      PreprocessorOpts = invPreprocessorOpts invocation,
                      HeaderSearchOpts = invHeaderSearchOpts invocation,
                      Diagnostics = None,
                      Preprocessor = None,
                      CodeCompletionConsumer = None\<rparr>;
               ci = ci\<lparr>Diagnostics := Some TextDiagnosticPrinter\<rparr>
           in Some (adjustInvocation ci)))"

subsection \<open>Reuse of a preamble and of module files\<close>

text \<open>\<open>std::map::try_emplace\<close>: a key that is present keeps its value.\<close>

definition try_emplace :: "('k \<rightharpoonup> 'v) \<Rightarrow> 'k \<Rightarrow> 'v \<Rightarrow> ('k \<rightharpoonup> 'v)" where
  "try_emplace m k v = (case m k of None \<Rightarrow> m(k \<mapsto> v) | Some old \<Rightarrow> m)"

text \<open>The loop over \<open>pcms\<close> at the end of \<open>applyPreamble\<close>.\<close>

fun addPrebuiltModuleFiles :: "CompilerInstance \<Rightarrow> (string \<times> string) list \<Rightarrow> CompilerInstance" where
  "addPrebuiltModuleFiles ci [] = ci"
| "addPrebuiltModuleFiles ci ((name, file) # rest) =
     addPrebuiltModuleFiles
       (ci\<lparr>HeaderSearchOpts := (HeaderSearchOpts ci)
          \<lparr>PrebuiltModuleFiles := try_emplace (PrebuiltModuleFiles (HeaderSearchOpts ci)) name file\<rparr>\<rparr>)
       rest"

text \<open>
  The source moves \<open>pch\<close> and the strings of \<open>pcms\<close> out of \<open>params\<close>; what that leaves in
  the caller's \<open>params\<close> is not tracked here, only the instance.
\<close>

definition applyPreamble :: "CompilerInstance \<Rightarrow> CompliationParams \<Rightarrow> CompilerInstance" where
  "applyPreamble ci params =
     (let ci =
        (if Size (bounds params) \<noteq> 0
         then ci\<lparr>PreprocessorOpts := (PreprocessorOpts ci)
                \<lparr>UsePredefines := False,
                 ImplicitPCHInclude := pch params,
                 PrecompiledPreambleBytes :=
                   (Size (bounds params), PreambleEndsAtStartOfLine (bounds params)),
                 DisablePCHOrModuleValidation := DisableValidation_PCH\<rparr>\<rparr>
         else ci)
      in addPrebuiltModuleFiles ci (pcms params))"

subsection \<open>Running an action\<close>

text \<open>The action object constructed for a kind; \<open>None\<close> is the branch that terminates.\<close>

definition makeAction :: "ActionKind \<Rightarrow> ASTFrontendAction option" where
  "makeAction kind =
     (if kind = ParseSyntaxOnly then Some SyntaxOnlyAction
      else if kind = GeneratePCH then Some GeneratePCHAction
      else if kind = GenerateReducedModuleInterface then Some GenerateReducedModuleInterfaceAction
      else None)"

text \<open>
  \<open>std::move(collector).consume()\<close>: the buffer of the tokens that the preprocessor the
  collector was constructed on reported during the run.
\<close>

definition consume :: "Frontend \<Rightarrow> ASTFrontendAction \<Rightarrow> CompilerInstance \<Rightarrow> TokenCollector \<Rightarrow> TokenBuffer" where
  "consume fe act ci collector =
     \<lparr>expandedTokens = lexedTokens fe act ci (collectorPP collector), expandedTokIndexed = False\<rparr>"

definition indexExpandedTokens :: "TokenBuffer \<Rightarrow> TokenBuffer" where
  "indexExpandedTokens buf = buf\<lparr>expandedTokIndexed := True\<rparr>"

text \<open>
  The parameter \<open>collectPP\<close> has the default value \<open>true\<close> in the source; a call that
  omits it passes \<open>True\<close> here.
\<close>

definition ExecuteAction ::
  "Frontend \<Rightarrow> CompilerInstance \<Rightarrow> ActionKind \<Rightarrow> bool \<Rightarrow> ASTInfo Outcome" where
  "ExecuteAction fe ci kind collectPP =
     (case makeAction kind of
        None \<Rightarrow> Fatal UnsupportedActionKind
      | Some act \<Rightarrow>
          (case createTarget fe ci of
             None \<Rightarrow> Error ''Failed to create target'' []
           | Some ci \<Rightarrow>
               (case Inputs (FrontendOpts ci) of
                  [] \<Rightarrow> Fatal NoInputFile
                | infile # others \<Rightarrow>
                    (case BeginSourceFile fe act ci infile of
                       None \<Rightarrow> Error ''Failed to begin source file'' []
                     | Some ci \<Rightarrow>
                         if collectPP then
                           (case Preprocessor ci of
                              None \<Rightarrow> Fatal NoPreprocessor
                            | Some PP \<Rightarrow>
                                (let collector = \<lparr>collectorPP = PP\<rparr> in
                                 case Execute fe act ci of
                                   Inl cause \<Rightarrow> Error ''Failed to execute action, because {} '' [cause]
                                 | Inr executed \<Rightarrow>
                                     Value \<lparr>action = act, compiler = executed,
                                            tokBuf = Some (indexExpandedTokens
                                                             (consume fe act ci collector))\<rparr>))
                         else
                           (case Execute fe act ci of
                              Inl cause \<Rightarrow> Error ''Failed to execute action, because {} '' [cause]
                            | Inr executed \<Rightarrow>
                                Value \<lparr>action = act, compiler = executed, tokBuf = None\<rparr>)))))"

subsection \<open>The four entry points\<close>

text \<open>\<open>PreprocessorOptions::addRemappedFile(path, buffer)\<close> appends the pair.\<close>

definition addRemappedFile :: "CompilerInstance \<Rightarrow> string \<Rightarrow> string \<Rightarrow> CompilerInstance" where
  "addRemappedFile ci file buffer =
     ci\<lparr>PreprocessorOpts := (PreprocessorOpts ci)
        \<lparr>RemappedFileBuffers := RemappedFileBuffers (PreprocessorOpts ci) @ [(file, buffer)]\<rparr>\<rparr>"

text \<open>
  Each entry point is split in two: \<open>X_instance\<close> is what the body does to the created
  instance before it calls \<open>ExecuteAction\<close>, and \<open>X\<close> is the whole body.
\<close>

definition buildAST_instance :: "CompilerInstance \<Rightarrow> CompliationParams \<Rightarrow> CompilerInstance" where
  "buildAST_instance ci params =
     (let ci = addRemappedFile ci (path params) (content params)
      in applyPreamble ci params)"

definition buildAST :: "Frontend \<Rightarrow> CompliationParams \<Rightarrow> ASTInfo Outcome" where
  "buildAST fe params =
     (case createInstance fe (args params) of
        None \<Rightarrow> Fatal NullInvocation
      | Some ci \<Rightarrow> ExecuteAction fe (buildAST_instance ci params) ParseSyntaxOnly True)"

text \<open>
  \<open>LangOptions\<close> as default constructed (the argument \<open>{}\<close> of \<open>ComputePreamble\<close>); its
  third argument \<open>false\<close> converts to \<open>MaxLines = 0\<close>.
\<close>

definition defaultLangOptions :: LangOptions where
  "defaultLangOptions =
     \<lparr>ParseAllComments = False, RetainCommentsFromSystemHeaders = False, CompilingPCH = False\<rparr>"

text \<open>\<open>StringRef::substr(0, n)\<close>: the first \<open>n\<close> bytes, or all of a shorter text.\<close>

definition substr0 :: "string \<Rightarrow> 32 word \<Rightarrow> string" where
  "substr0 text n = take (unat n) text"

definition buildPCH_instance ::
  "CompilerInstance \<Rightarrow> CompliationParams \<Rightarrow> PreambleBounds \<Rightarrow> CompilerInstance" where
  "buildPCH_instance ci params bnds =
     (let ci = ci\<lparr>FrontendOpts := (FrontendOpts ci)\<lparr>OutputFile := outpath params\<rparr>\<rparr>;
          ci = ci\<lparr>FrontendOpts := (FrontendOpts ci)\<lparr>ProgramAction := GeneratePCH\<rparr>\<rparr>;
          ci = ci\<lparr>PreprocessorOpts := (PreprocessorOpts ci)\<lparr>PrecompiledPreambleBytes := (0, False)\<rparr>\<rparr>;
          ci = ci\<lparr>PreprocessorOpts := (PreprocessorOpts ci)\<lparr>GeneratePreamble := True\<rparr>\<rparr>;
          ci = ci\<lparr>LangOpts := (LangOpts ci)\<lparr>CompilingPCH := True\<rparr>\<rparr>
      in addRemappedFile ci (path params) (substr0 (content params) (Size bnds)))"

definition buildPCH :: "Frontend \<Rightarrow> CompliationParams \<Rightarrow> PCHInfo Outcome" where
  "buildPCH fe params =
     (case createInstance fe (args params) of
        None \<Rightarrow> Fatal NullInvocation
      | Some ci \<Rightarrow>
          if mainpath params = path params then
            (let bnds = ComputePreamble fe (content params) defaultLangOptions 0 in
             case ExecuteAction fe (buildPCH_instance ci params bnds) GeneratePCH True of
               Value info \<Rightarrow>
                 Value \<lparr>pchAST = info, pchPath = outpath params, pchContent = content params,
                        pchMainpath = mainpath params, pchBounds = bnds\<rparr>
             | Error fmt causes \<Rightarrow> Error fmt causes
             | Fatal c \<Rightarrow> Fatal c)
          else Fatal PreambleOfOtherMainFile)"

definition buildPCM_instance :: "CompilerInstance \<Rightarrow> CompliationParams \<Rightarrow> CompilerInstance" where
  "buildPCM_instance ci params =
     (let ci = ci\<lparr>FrontendOpts := (FrontendOpts ci)\<lparr>OutputFile := outpath params\<rparr>\<rparr>;
          ci = ci\<lparr>FrontendOpts := (FrontendOpts ci)\<lparr>ProgramAction := GenerateReducedModuleInterface\<rparr>\<rparr>;
          ci = addRemappedFile ci (path params) (content params)
      in applyPreamble ci params)"

definition buildPCM :: "Frontend \<Rightarrow> CompliationParams \<Rightarrow> PCMInfo Outcome" where
  "buildPCM fe params =
     (case createInstance fe (args params) of
        None \<Rightarrow> Fatal NullInvocation
      | Some ci \<Rightarrow>
          (case ExecuteAction fe (buildPCM_instance ci params) GenerateReducedModuleInterface True of
             Value info \<Rightarrow> Value \<lparr>pcmAST = info, pcmPath = outpath params\<rparr>
           | Error fmt causes \<Rightarrow> Error fmt causes
           | Fatal c \<Rightarrow> Fatal c))"

text \<open>\<open>consumer\<close> is the identity of the caller's \<open>CodeCompleteConsumer\<close> object.\<close>

definition codeCompleteAt_instance ::
  "CompilerInstance \<Rightarrow> CompliationParams \<Rightarrow> 32 word \<Rightarrow> 32 word \<Rightarrow> string \<Rightarrow> nat \<Rightarrow> CompilerInstance" where
  "codeCompleteAt_instance ci params line column file consumer =
     (let ci = ci\<lparr>FrontendOpts := (FrontendOpts ci)
                 \<lparr>CodeCompletionAt := (CodeCompletionAt (FrontendOpts ci))\<lparr>Line := line\<rparr>\<rparr>\<rparr>;
          ci = ci\<lparr>FrontendOpts := (FrontendOpts ci)
                 \<lparr>CodeCompletionAt := (CodeCompletionAt (FrontendOpts ci))\<lparr>Column := column\<rparr>\<rparr>\<rparr>;
          ci = ci\<lparr>FrontendOpts := (FrontendOpts ci)
                 \<lparr>CodeCompletionAt := (CodeCompletionAt (FrontendOpts ci))\<lparr>FileName := file\<rparr>\<rparr>\<rparr>;
          ci = ci\<lparr>CodeCompletionConsumer := Some consumer\<rparr>;
          ci = addRemappedFile ci (path params) (content params)
      in applyPreamble ci params)"

definition codeCompleteAt ::
  "Frontend \<Rightarrow> CompliationParams \<Rightarrow> 32 word \<Rightarrow> 32 word \<Rightarrow> string \<Rightarrow> nat \<Rightarrow> ASTInfo Outcome" where
  "codeCompleteAt fe params line column file consumer =
     (case createInstance fe (args params) of
        None \<Rightarrow> Fatal NullInvocation
      | Some ci \<Rightarrow>
          ExecuteAction fe (codeCompleteAt_instance ci params line column file consumer)
            ParseSyntaxOnly False)"

subsection \<open>A small frontend to run the pipeline on\<close>

text \<open>
  A stand-in for the library, used where a statement is evaluated on a concrete input.
  Its invocation takes the last argument as the input file, has \<open>DisableFree\<close> set and
  the comment options clear, and registers the module file of the one option
  \<open>-fmodule-file=M=old.pcm\<close>; its \<open>BeginSourceFile\<close> gives the instance a new preprocessor
  object; only the preprocessor the instance holds during the run reports tokens, the
  words of the remapped text; its preamble is the leading run of lines that start with
  \<open>#\<close>.
\<close>

definition exampleInvocation :: "string list \<Rightarrow> CompilerInvocation" where
  "exampleInvocation arguments =
     \<lparr>invFrontendOpts =
        \<lparr>DisableFree = True, OutputFile = [], ProgramAction = ParseSyntaxOnly,
         Inputs = [last arguments],
         CodeCompletionAt = \<lparr>FileName = [], Line = 0, Column = 0\<rparr>\<rparr>,
      invLangOpts = defaultLangOptions,
      invPreprocessorOpts =
        \<lparr>UsePredefines = True, ImplicitPCHInclude = [], PrecompiledPreambleBytes = (0, False),
         DisablePCHOrModuleValidation = DisableValidation_None, GeneratePreamble = False,
         RemappedFileBuffers = []\<rparr>,
      invHeaderSearchOpts =
        \<lparr>PrebuiltModuleFiles =
           (if ''-fmodule-file=M=old.pcm'' \<in> set arguments
            then [''M'' \<mapsto> ''old.pcm''] else Map.empty)\<rparr>\<rparr>"

fun tokensOf :: "string \<Rightarrow> string \<Rightarrow> Token list" where
  "tokensOf cur [] = (if cur = [] then [] else [cur])"
| "tokensOf cur (c # cs) =
     (if c = CHR '' '' \<or> c = CHR 0x0A
      then (if cur = [] then tokensOf [] cs else cur # tokensOf [] cs)
      else tokensOf (cur @ [c]) cs)"

fun preambleLength :: "bool \<Rightarrow> string \<Rightarrow> nat" where
  "preambleLength inDirective [] = 0"
| "preambleLength inDirective (c # cs) =
     (if inDirective then Suc (preambleLength (c \<noteq> CHR 0x0A) cs)
      else if c = CHR ''#'' then Suc (preambleLength True cs)
      else 0)"

definition exampleFrontend :: Frontend where
  "exampleFrontend =
     \<lparr>createInvocation =
        (\<lambda>arguments. if arguments = [] then None else Some (exampleInvocation arguments)),
      createTarget = (\<lambda>ci. Some ci),
      BeginSourceFile =
        (\<lambda>act ci infile.
           Some (ci\<lparr>Preprocessor := Some (case Preprocessor ci of None \<Rightarrow> 1 | Some pp \<Rightarrow> Suc pp)\<rparr>)),
      Execute = (\<lambda>act ci. Inr ci),
      lexedTokens =
        (\<lambda>act ci pp.
           if Preprocessor ci = Some pp
           then concat (map (\<lambda>remapped. tokensOf [] (snd remapped))
                          (RemappedFileBuffers (PreprocessorOpts ci)))
           else []),
      ComputePreamble =
        (\<lambda>text langOpts maxLines.
           \<lparr>Size = of_nat (preambleLength False text), PreambleEndsAtStartOfLine = True\<rparr>)\<rparr>"

text \<open>
  An instance as \<open>createInstance\<close> leaves it for \<open>clang++ main.cpp\<close>, with the text remapped
  and holding a preprocessor object (number 7) from before the action begins.
\<close>

definition exampleInstance :: CompilerInstance where
  "exampleInstance =
     \<lparr>FrontendOpts = (invFrontendOpts (exampleInvocation [''clang++'', ''main.cpp'']))
                       \<lparr>DisableFree := False\<rparr>,
      LangOpts = \<lparr>ParseAllComments = True, RetainCommentsFromSystemHeaders = True,
                  CompilingPCH = False\<rparr>,
      PreprocessorOpts = (invPreprocessorOpts (exampleInvocation [''clang++'', ''main.cpp'']))
                           \<lparr>RemappedFileBuffers := [(''main.cpp'', ''int x;'')]\<rparr>,
      HeaderSearchOpts = \<lparr>PrebuiltModuleFiles = Map.empty\<rparr>,
      Diagnostics = Some TextDiagnosticPrinter,
      Preprocessor = Some 7,
      CodeCompletionConsumer = None\<rparr>"

definition exampleParams :: CompliationParams where
  "exampleParams =
     \<lparr>content = ''#include <a>'' @ [CHR 0x0A] @ ''int x;'',
      path = ''main.cpp'',
      outpath = ''main.pch'',
      mainpath = ''main.cpp'',
      args = [''clang++'', ''main.cpp''],
      pch = ''old.pch'',
      bounds = \<lparr>Size = 13, PreambleEndsAtStartOfLine = True\<rparr>,
      pcms = [(''M'', ''M.pcm'')]\<rparr>"

section \<open>Properties\<close>

subsection \<open>Unfolding and evaluation\<close>

lemmas pipeline_defs =
  buildAST_def buildAST_instance_def buildPCH_def buildPCH_instance_def buildPCM_def
  buildPCM_instance_def codeCompleteAt_def codeCompleteAt_instance_def createInstance_def
  adjustInvocation_def applyPreamble_def addRemappedFile_def ExecuteAction_def makeAction_def
  consume_def indexExpandedTokens_def substr0_def try_emplace_def Let_def

lemmas example_defs =
  exampleFrontend_def exampleParams_def exampleInvocation_def exampleInstance_def
  defaultLangOptions_def

subsection \<open>The loop over the module files\<close>

lemma addPrebuiltModuleFiles_PreprocessorOpts [simp]:
  "PreprocessorOpts (addPrebuiltModuleFiles ci ms) = PreprocessorOpts ci"
  by (induction ci ms rule: addPrebuiltModuleFiles.induct) simp_all

lemma addPrebuiltModuleFiles_lookup:
  "PrebuiltModuleFiles (HeaderSearchOpts (addPrebuiltModuleFiles ci ms)) name =
     (case PrebuiltModuleFiles (HeaderSearchOpts ci) name of
        Some old \<Rightarrow> Some old
      | None \<Rightarrow> map_of ms name)"
  by (induction ci ms rule: addPrebuiltModuleFiles.induct)
     (auto simp: try_emplace_def split: option.splits)

subsection \<open>What a run of \<open>ExecuteAction\<close> went through\<close>

lemma ExecuteAction_supported:
  "makeAction kind = Some act \<Longrightarrow> ExecuteAction fe ci kind c \<noteq> Fatal UnsupportedActionKind"
  by (simp add: ExecuteAction_def Let_def split: option.splits list.splits sum.splits)

lemma ExecuteAction_Value:
  assumes "ExecuteAction fe ci kind c = Value info"
  shows "\<exists>act ci1 infile others ci2.
           makeAction kind = Some act
         \<and> createTarget fe ci = Some ci1
         \<and> Inputs (FrontendOpts ci1) = infile # others
         \<and> BeginSourceFile fe act ci1 infile = Some ci2
         \<and> Execute fe act ci2 = Inr (compiler info)
         \<and> action info = act
         \<and> (if c then \<exists>pp. Preprocessor ci2 = Some pp
                       \<and> tokBuf info = Some \<lparr>expandedTokens = lexedTokens fe act ci2 pp,
                                              expandedTokIndexed = True\<rparr>
             else tokBuf info = None)"
  using assms
  by (auto simp: ExecuteAction_def Let_def consume_def indexExpandedTokens_def
           split: option.splits list.splits sum.splits if_splits)

lemma ExecuteAction_target_fails:
  "makeAction kind = Some act \<Longrightarrow> createTarget fe ci = None \<Longrightarrow>
   ExecuteAction fe ci kind c = Error ''Failed to create target'' []"
  by (simp add: ExecuteAction_def)

lemma ExecuteAction_begin_fails:
  "makeAction kind = Some act \<Longrightarrow> createTarget fe ci = Some ci1 \<Longrightarrow>
   Inputs (FrontendOpts ci1) = infile # others \<Longrightarrow>
   BeginSourceFile fe act ci1 infile = None \<Longrightarrow>
   ExecuteAction fe ci kind c = Error ''Failed to begin source file'' []"
  by (simp add: ExecuteAction_def)

lemma ExecuteAction_execute_fails:
  "makeAction kind = Some act \<Longrightarrow> createTarget fe ci = Some ci1 \<Longrightarrow>
   Inputs (FrontendOpts ci1) = infile # others \<Longrightarrow>
   BeginSourceFile fe act ci1 infile = Some ci2 \<Longrightarrow>
   (c \<longrightarrow> Preprocessor ci2 \<noteq> None) \<Longrightarrow>
   Execute fe act ci2 = Inl cause \<Longrightarrow>
   ExecuteAction fe ci kind c = Error ''Failed to execute action, because {} '' [cause]"
  by (auto simp: ExecuteAction_def Let_def split: option.splits)

lemma makeAction_supported:
  "makeAction ParseSyntaxOnly = Some SyntaxOnlyAction"
  "makeAction GeneratePCH = Some GeneratePCHAction"
  "makeAction GenerateReducedModuleInterface = Some GenerateReducedModuleInterfaceAction"
  by (simp_all add: makeAction_def)

subsection \<open>What an entry point returns, from what \<open>ExecuteAction\<close> returned\<close>

lemma buildAST_Value:
  "buildAST fe params = Value info \<Longrightarrow>
   \<exists>created. createInstance fe (args params) = Some created
     \<and> ExecuteAction fe (buildAST_instance created params) ParseSyntaxOnly True = Value info"
  by (auto simp: buildAST_def split: option.splits)

lemma buildAST_Error:
  "createInstance fe (args params) = Some created \<Longrightarrow>
   ExecuteAction fe (buildAST_instance created params) ParseSyntaxOnly True = Error fmt causes \<Longrightarrow>
   buildAST fe params = Error fmt causes"
  by (simp add: buildAST_def)

lemma codeCompleteAt_Value:
  "codeCompleteAt fe params line column fileName consumer = Value info \<Longrightarrow>
   \<exists>created. createInstance fe (args params) = Some created
     \<and> ExecuteAction fe (codeCompleteAt_instance created params line column fileName consumer)
          ParseSyntaxOnly False = Value info"
  by (auto simp: codeCompleteAt_def split: option.splits)

lemma codeCompleteAt_Error:
  "createInstance fe (args params) = Some created \<Longrightarrow>
   ExecuteAction fe (codeCompleteAt_instance created params line column fileName consumer)
     ParseSyntaxOnly False = Error fmt causes \<Longrightarrow>
   codeCompleteAt fe params line column fileName consumer = Error fmt causes"
  by (simp add: codeCompleteAt_def)

lemma buildPCM_Value:
  "buildPCM fe params = Value pcmInfo \<Longrightarrow>
   \<exists>created. createInstance fe (args params) = Some created
     \<and> ExecuteAction fe (buildPCM_instance created params) GenerateReducedModuleInterface True
          = Value (pcmAST pcmInfo)"
  by (auto simp: buildPCM_def split: option.splits Outcome.splits)

lemma buildPCM_Error:
  "createInstance fe (args params) = Some created \<Longrightarrow>
   ExecuteAction fe (buildPCM_instance created params) GenerateReducedModuleInterface True
     = Error fmt causes \<Longrightarrow>
   buildPCM fe params = Error fmt causes"
  by (simp add: buildPCM_def)

lemma buildPCH_Value:
  "buildPCH fe params = Value pchInfo \<Longrightarrow>
   \<exists>created. createInstance fe (args params) = Some created
     \<and> mainpath params = path params
     \<and> ExecuteAction fe
          (buildPCH_instance created params
             (ComputePreamble fe (content params) defaultLangOptions 0))
          GeneratePCH True
          = Value (pchAST pchInfo)"
  by (auto simp: buildPCH_def Let_def split: option.splits if_splits Outcome.splits)

lemma buildPCH_Error:
  "createInstance fe (args params) = Some created \<Longrightarrow>
   mainpath params = path params \<Longrightarrow>
   ExecuteAction fe
     (buildPCH_instance created params
        (ComputePreamble fe (content params) defaultLangOptions 0))
     GeneratePCH True
     = Error fmt causes \<Longrightarrow>
   buildPCH fe params = Error fmt causes"
  by (simp add: buildPCH_def Let_def)

lemma example_created:
  "createInstance exampleFrontend (args exampleParams) \<noteq> None"
  by (simp add: createInstance_def example_defs)

subsection \<open>The claims\<close>




text \<open>
  C2. The code does not do what the claim asks for. When the unit path differs from the
  main path, \<open>buildPCH\<close> takes the branch its comment marks as still to be written and
  calls \<open>std::terminate\<close>: the process stops and no result, so no reported failure,
  reaches the caller. On the example, with \<open>main.cpp\<close> built as part of \<open>other.cpp\<close>, the
  outcome is that stop and not the \<open>Error\<close> state of the returned value.
\<close>

theorem buildPCH_other_mainpath_halts:
  "mainpath (exampleParams\<lparr>mainpath := ''other.cpp''\<rparr>)
     \<noteq> path (exampleParams\<lparr>mainpath := ''other.cpp''\<rparr>)
   \<and> buildPCH exampleFrontend (exampleParams\<lparr>mainpath := ''other.cpp''\<rparr>)
       = Fatal PreambleOfOtherMainFile"
  by (simp add: buildPCH_def createInstance_def example_defs)

text \<open>
  C3. For every argument list, the session that construction yields has the fixed
  policy: \<open>DisableFree\<close> is cleared (the frontend does not skip releasing its state when
  the session ends; the state lives as long as the instance that owns it), and comments
  are all parsed (\<open>ParseAllComments\<close>) and retained from system headers
  (\<open>RetainCommentsFromSystemHeaders\<close>), whatever options the arguments had set.
\<close>

theorem createInstance_fixed_policy:
  assumes "createInstance fe arguments = Some ci"
  shows "DisableFree (FrontendOpts ci) = False
       \<and> ParseAllComments (LangOpts ci) = True
       \<and> RetainCommentsFromSystemHeaders (LangOpts ci) = True"
  using assms
  by (auto simp: createInstance_def adjustInvocation_def Let_def split: option.splits)

theorem createInstance_fixed_policy_witness:
  "createInvocation exampleFrontend [''clang++'', ''main.cpp''] = Some (exampleInvocation [''clang++'', ''main.cpp''])
   \<and> DisableFree (invFrontendOpts (exampleInvocation [''clang++'', ''main.cpp''])) = True
   \<and> ParseAllComments (invLangOpts (exampleInvocation [''clang++'', ''main.cpp''])) = False
   \<and> (case createInstance exampleFrontend [''clang++'', ''main.cpp''] of
         None \<Rightarrow> False
       | Some ci \<Rightarrow>
           DisableFree (FrontendOpts ci) = False
           \<and> ParseAllComments (LangOpts ci) = True
           \<and> RetainCommentsFromSystemHeaders (LangOpts ci) = True)"
proof -
  obtain ci where ci: "createInstance exampleFrontend [''clang++'', ''main.cpp''] = Some ci"
    by (simp add: createInstance_def exampleFrontend_def)
  from createInstance_fixed_policy [OF ci] ci show ?thesis
    by (simp add: exampleFrontend_def exampleInvocation_def defaultLangOptions_def)
qed

text \<open>
  C4. The two branches of \<open>applyPreamble\<close>. With \<open>bounds.Size = 0\<close> the preprocessor
  options of the session are left as they were. Otherwise the predefines are switched
  off, the prior preamble \<open>pch\<close> becomes the implicit PCH include, the precompiled
  preamble bytes become \<open>(Size, PreambleEndsAtStartOfLine)\<close>, and validation is disabled
  for PCH.
\<close>

theorem applyPreamble_contract:
  "(Size (bounds params) = 0 \<longrightarrow>
      PreprocessorOpts (applyPreamble ci params) = PreprocessorOpts ci)
   \<and> (Size (bounds params) \<noteq> 0 \<longrightarrow>
      UsePredefines (PreprocessorOpts (applyPreamble ci params)) = False
      \<and> ImplicitPCHInclude (PreprocessorOpts (applyPreamble ci params)) = pch params
      \<and> PrecompiledPreambleBytes (PreprocessorOpts (applyPreamble ci params))
          = (Size (bounds params), PreambleEndsAtStartOfLine (bounds params))
      \<and> DisablePCHOrModuleValidation (PreprocessorOpts (applyPreamble ci params))
          = DisableValidation_PCH)"
  by (simp add: applyPreamble_def)

text \<open>
  On the example instance: the parameters of the example (a preamble of 13 bytes), and
  the same parameters with no preamble.
\<close>

theorem applyPreamble_contract_witness:
  "Size (bounds exampleParams) \<noteq> 0
   \<and> UsePredefines (PreprocessorOpts exampleInstance) = True
   \<and> UsePredefines (PreprocessorOpts (applyPreamble exampleInstance exampleParams)) = False
   \<and> ImplicitPCHInclude (PreprocessorOpts (applyPreamble exampleInstance exampleParams))
       = ''old.pch''
   \<and> PrecompiledPreambleBytes (PreprocessorOpts (applyPreamble exampleInstance exampleParams))
       = (13, True)
   \<and> DisablePCHOrModuleValidation
        (PreprocessorOpts (applyPreamble exampleInstance exampleParams))
       = DisableValidation_PCH
   \<and> Size (bounds (exampleParams\<lparr>bounds := \<lparr>Size = 0, PreambleEndsAtStartOfLine = False\<rparr>\<rparr>)) = 0
   \<and> PreprocessorOpts
        (applyPreamble exampleInstance
           (exampleParams\<lparr>bounds := \<lparr>Size = 0, PreambleEndsAtStartOfLine = False\<rparr>\<rparr>))
       = PreprocessorOpts exampleInstance"
proof -
  have warm: "Size (bounds exampleParams) \<noteq> 0"
    by (simp add: exampleParams_def)
  have cold:
    "Size (bounds (exampleParams\<lparr>bounds := \<lparr>Size = 0, PreambleEndsAtStartOfLine = False\<rparr>\<rparr>)) = 0"
    by simp
  from applyPreamble_contract [of exampleParams exampleInstance]
       applyPreamble_contract
         [of "exampleParams\<lparr>bounds := \<lparr>Size = 0, PreambleEndsAtStartOfLine = False\<rparr>\<rparr>"
             exampleInstance]
       warm cold
  show ?thesis
    by (simp add: example_defs)
qed

text \<open>
  C5. An artifact is returned only on full success, for every build. For each of the
  four entry points: when it returns an artifact, the session was created, its target
  was created, the action began on the input file and the run returned no error, and
  the artifact holds the instance the run left (for \<open>buildPCH\<close> the unit is also its own
  main file). When the target of its session cannot be created it returns the error
  ``Failed to create target'', when the action cannot begin ``Failed to begin source
  file'', and when the run returns an error ``Failed to execute action, because \<open>{}\<close>''
  with the cause as its argument; in none of these cases is an artifact returned.
\<close>

theorem artifact_only_on_full_success:
   "(buildAST fe params = Value info \<longrightarrow>
       (\<exists>created targeted infile others begun.
          createInstance fe (args params) = Some created
          \<and> createTarget fe (buildAST_instance created params) = Some targeted
          \<and> Inputs (FrontendOpts targeted) = infile # others
          \<and> BeginSourceFile fe SyntaxOnlyAction targeted infile = Some begun
          \<and> Execute fe SyntaxOnlyAction begun = Inr (compiler info)))
    \<and> (createInstance fe (args params) = Some created
        \<and> createTarget fe (buildAST_instance created params) = None \<longrightarrow>
       buildAST fe params = Error ''Failed to create target'' [])
    \<and> (createInstance fe (args params) = Some created
        \<and> createTarget fe (buildAST_instance created params) = Some targeted
        \<and> Inputs (FrontendOpts targeted) = infile # others
        \<and> BeginSourceFile fe SyntaxOnlyAction targeted infile = None \<longrightarrow>
       buildAST fe params = Error ''Failed to begin source file'' [])
    \<and> (createInstance fe (args params) = Some created
        \<and> createTarget fe (buildAST_instance created params) = Some targeted
        \<and> Inputs (FrontendOpts targeted) = infile # others
        \<and> BeginSourceFile fe SyntaxOnlyAction targeted infile = Some begun
        \<and> Preprocessor begun \<noteq> None
        \<and> Execute fe SyntaxOnlyAction begun = Inl cause \<longrightarrow>
       buildAST fe params = Error ''Failed to execute action, because {} '' [cause])
    \<and> (buildPCH fe params = Value pchInfo \<longrightarrow>
       (\<exists>created targeted infile others begun.
          createInstance fe (args params) = Some created
          \<and> mainpath params = path params
          \<and> createTarget fe (buildPCH_instance created params
                  (ComputePreamble fe (content params) defaultLangOptions 0)) = Some targeted
          \<and> Inputs (FrontendOpts targeted) = infile # others
          \<and> BeginSourceFile fe GeneratePCHAction targeted infile = Some begun
          \<and> Execute fe GeneratePCHAction begun = Inr (compiler (pchAST pchInfo))))
    \<and> (createInstance fe (args params) = Some created
        \<and> mainpath params = path params
        \<and> createTarget fe (buildPCH_instance created params
                  (ComputePreamble fe (content params) defaultLangOptions 0)) = None \<longrightarrow>
       buildPCH fe params = Error ''Failed to create target'' [])
    \<and> (createInstance fe (args params) = Some created
        \<and> mainpath params = path params
        \<and> createTarget fe (buildPCH_instance created params
                  (ComputePreamble fe (content params) defaultLangOptions 0)) = Some targeted
        \<and> Inputs (FrontendOpts targeted) = infile # others
        \<and> BeginSourceFile fe GeneratePCHAction targeted infile = None \<longrightarrow>
       buildPCH fe params = Error ''Failed to begin source file'' [])
    \<and> (createInstance fe (args params) = Some created
        \<and> mainpath params = path params
        \<and> createTarget fe (buildPCH_instance created params
                  (ComputePreamble fe (content params) defaultLangOptions 0)) = Some targeted
        \<and> Inputs (FrontendOpts targeted) = infile # others
        \<and> BeginSourceFile fe GeneratePCHAction targeted infile = Some begun
        \<and> Preprocessor begun \<noteq> None
        \<and> Execute fe GeneratePCHAction begun = Inl cause \<longrightarrow>
       buildPCH fe params = Error ''Failed to execute action, because {} '' [cause])
    \<and> (buildPCM fe params = Value pcmInfo \<longrightarrow>
       (\<exists>created targeted infile others begun.
          createInstance fe (args params) = Some created
          \<and> createTarget fe (buildPCM_instance created params) = Some targeted
          \<and> Inputs (FrontendOpts targeted) = infile # others
          \<and> BeginSourceFile fe GenerateReducedModuleInterfaceAction targeted infile = Some begun
          \<and> Execute fe GenerateReducedModuleInterfaceAction begun = Inr (compiler (pcmAST pcmInfo))))
    \<and> (createInstance fe (args params) = Some created
        \<and> createTarget fe (buildPCM_instance created params) = None \<longrightarrow>
       buildPCM fe params = Error ''Failed to create target'' [])
    \<and> (createInstance fe (args params) = Some created
        \<and> createTarget fe (buildPCM_instance created params) = Some targeted
        \<and> Inputs (FrontendOpts targeted) = infile # others
        \<and> BeginSourceFile fe GenerateReducedModuleInterfaceAction targeted infile = None \<longrightarrow>
       buildPCM fe params = Error ''Failed to begin source file'' [])
    \<and> (createInstance fe (args params) = Some created
        \<and> createTarget fe (buildPCM_instance created params) = Some targeted
        \<and> Inputs (FrontendOpts targeted) = infile # others
        \<and> BeginSourceFile fe GenerateReducedModuleInterfaceAction targeted infile = Some begun
        \<and> Preprocessor begun \<noteq> None
        \<and> Execute fe GenerateReducedModuleInterfaceAction begun = Inl cause \<longrightarrow>
       buildPCM fe params = Error ''Failed to execute action, because {} '' [cause])
    \<and> (codeCompleteAt fe params line column fileName consumer = Value info' \<longrightarrow>
       (\<exists>created targeted infile others begun.
          createInstance fe (args params) = Some created
          \<and> createTarget fe (codeCompleteAt_instance created params line column fileName consumer) = Some targeted
          \<and> Inputs (FrontendOpts targeted) = infile # others
          \<and> BeginSourceFile fe SyntaxOnlyAction targeted infile = Some begun
          \<and> Execute fe SyntaxOnlyAction begun = Inr (compiler info')))
    \<and> (createInstance fe (args params) = Some created
        \<and> createTarget fe (codeCompleteAt_instance created params line column fileName consumer) = None \<longrightarrow>
       codeCompleteAt fe params line column fileName consumer = Error ''Failed to create target'' [])
    \<and> (createInstance fe (args params) = Some created
        \<and> createTarget fe (codeCompleteAt_instance created params line column fileName consumer) = Some targeted
        \<and> Inputs (FrontendOpts targeted) = infile # others
        \<and> BeginSourceFile fe SyntaxOnlyAction targeted infile = None \<longrightarrow>
       codeCompleteAt fe params line column fileName consumer = Error ''Failed to begin source file'' [])
    \<and> (createInstance fe (args params) = Some created
        \<and> createTarget fe (codeCompleteAt_instance created params line column fileName consumer) = Some targeted
        \<and> Inputs (FrontendOpts targeted) = infile # others
        \<and> BeginSourceFile fe SyntaxOnlyAction targeted infile = Some begun
        \<and> Execute fe SyntaxOnlyAction begun = Inl cause \<longrightarrow>
       codeCompleteAt fe params line column fileName consumer = Error ''Failed to execute action, because {} '' [cause])"
proof (intro conjI impI, goal_cases)
  case 1
  from buildAST_Value [OF this] show ?case
    by (auto dest!: ExecuteAction_Value simp: makeAction_def)
next
  case 2
  then show ?case
    by (blast intro: buildAST_Error ExecuteAction_target_fails [OF makeAction_supported(1)])
next
  case 3
  then show ?case
    by (blast intro: buildAST_Error ExecuteAction_begin_fails [OF makeAction_supported(1)])
next
  case 4
  then show ?case
    by (blast intro: buildAST_Error ExecuteAction_execute_fails [OF makeAction_supported(1)])
next
  case 5
  from buildPCH_Value [OF this] show ?case
    by (auto dest!: ExecuteAction_Value simp: makeAction_def)
next
  case 6
  then show ?case
    by (blast intro: buildPCH_Error ExecuteAction_target_fails [OF makeAction_supported(2)])
next
  case 7
  then show ?case
    by (blast intro: buildPCH_Error ExecuteAction_begin_fails [OF makeAction_supported(2)])
next
  case 8
  then show ?case
    by (blast intro: buildPCH_Error ExecuteAction_execute_fails [OF makeAction_supported(2)])
next
  case 9
  from buildPCM_Value [OF this] show ?case
    by (auto dest!: ExecuteAction_Value simp: makeAction_def)
next
  case 10
  then show ?case
    by (blast intro: buildPCM_Error ExecuteAction_target_fails [OF makeAction_supported(3)])
next
  case 11
  then show ?case
    by (blast intro: buildPCM_Error ExecuteAction_begin_fails [OF makeAction_supported(3)])
next
  case 12
  then show ?case
    by (blast intro: buildPCM_Error ExecuteAction_execute_fails [OF makeAction_supported(3)])
next
  case 13
  from codeCompleteAt_Value [OF this] show ?case
    by (auto dest!: ExecuteAction_Value simp: makeAction_def)
next
  case 14
  then show ?case
    by (blast intro: codeCompleteAt_Error ExecuteAction_target_fails [OF makeAction_supported(1)])
next
  case 15
  then show ?case
    by (blast intro: codeCompleteAt_Error ExecuteAction_begin_fails [OF makeAction_supported(1)])
next
  case 16
  then show ?case
    by (blast intro: codeCompleteAt_Error ExecuteAction_execute_fails [OF makeAction_supported(1)])
qed

text \<open>
  A tree build whose main path differs from its path, with a frontend whose target
  cannot be created; a module build with one whose action cannot begin; a preamble
  build with one whose run returns an error.
\<close>

theorem artifact_only_on_full_success_witness:
  "buildAST (exampleFrontend\<lparr>createTarget := (\<lambda>ci. None)\<rparr>)
       (exampleParams\<lparr>mainpath := ''other.cpp''\<rparr>)
     = Error ''Failed to create target'' []
   \<and> buildPCM (exampleFrontend\<lparr>BeginSourceFile := (\<lambda>act ci infile. None)\<rparr>) exampleParams
     = Error ''Failed to begin source file'' []
   \<and> buildPCH (exampleFrontend\<lparr>Execute := (\<lambda>act ci. Inl ''too many errors'')\<rparr>) exampleParams
     = Error ''Failed to execute action, because {} '' [''too many errors'']"
proof -
  let ?noTarget = "exampleFrontend\<lparr>createTarget := (\<lambda>ci. None)\<rparr>"
  let ?noBegin = "exampleFrontend\<lparr>BeginSourceFile := (\<lambda>act ci infile. None)\<rparr>"
  let ?noRun = "exampleFrontend\<lparr>Execute := (\<lambda>act ci. Inl ''too many errors'')\<rparr>"
  let ?other = "exampleParams\<lparr>mainpath := ''other.cpp''\<rparr>"
  obtain c1 where c1: "createInstance ?noTarget (args ?other) = Some c1"
    by (simp add: createInstance_def example_defs)
  obtain c2 where c2: "createInstance ?noBegin (args exampleParams) = Some c2"
    by (simp add: createInstance_def example_defs)
  obtain c3 where c3: "createInstance ?noRun (args exampleParams) = Some c3"
    by (simp add: createInstance_def example_defs)
  let ?s1 = "buildAST_instance c1 ?other"
  let ?s2 = "buildPCM_instance c2 exampleParams"
  let ?s3 = "buildPCH_instance c3 exampleParams
               (ComputePreamble ?noRun (content exampleParams) defaultLangOptions 0)"
  have t1: "createTarget ?noTarget ?s1 = None"
    by (simp add: exampleFrontend_def)
  have "buildAST ?noTarget ?other = Error ''Failed to create target'' []"
    using artifact_only_on_full_success
            [where fe = ?noTarget and params = ?other and created = c1,
             THEN conjunct2, THEN conjunct1]
          c1 t1
    by blast
  moreover
  have t2: "createTarget ?noBegin ?s2 = Some ?s2"
           "Inputs (FrontendOpts ?s2) = [''main.cpp'']"
           "BeginSourceFile ?noBegin GenerateReducedModuleInterfaceAction ?s2 ''main.cpp'' = None"
    using c2 by (auto simp: pipeline_defs example_defs)
  have "buildPCM ?noBegin exampleParams = Error ''Failed to begin source file'' []"
    using artifact_only_on_full_success
            [where fe = ?noBegin and params = exampleParams and created = c2
               and targeted = ?s2 and infile = "''main.cpp''" and others = "[]",
             THEN conjunct2, THEN conjunct2, THEN conjunct2, THEN conjunct2, THEN conjunct2, THEN conjunct2, THEN conjunct2, THEN conjunct2, THEN conjunct2, THEN conjunct2, THEN conjunct1]
          c2 t2
    by blast
  moreover
  have same: "mainpath exampleParams = path exampleParams"
    by (simp add: exampleParams_def)
  have t3: "createTarget ?noRun ?s3 = Some ?s3"
           "Inputs (FrontendOpts ?s3) = [''main.cpp'']"
           "BeginSourceFile ?noRun GeneratePCHAction ?s3 ''main.cpp''
              = Some (?s3\<lparr>Preprocessor := Some 1\<rparr>)"
           "Preprocessor (?s3\<lparr>Preprocessor := Some 1\<rparr>) \<noteq> None"
           "Execute ?noRun GeneratePCHAction (?s3\<lparr>Preprocessor := Some 1\<rparr>)
              = Inl ''too many errors''"
    using c3 by (auto simp: pipeline_defs example_defs)
  have "buildPCH ?noRun exampleParams
          = Error ''Failed to execute action, because {} '' [''too many errors'']"
    using artifact_only_on_full_success
            [where fe = ?noRun and params = exampleParams and created = c3
               and targeted = ?s3 and infile = "''main.cpp''" and others = "[]"
               and begun = "?s3\<lparr>Preprocessor := Some 1\<rparr>"
               and cause = "''too many errors''",
             THEN conjunct2, THEN conjunct2, THEN conjunct2, THEN conjunct2, THEN conjunct2, THEN conjunct2, THEN conjunct2, THEN conjunct1]
          c3 same t3
    by blast
  ultimately show ?thesis by simp
qed

text \<open>
  C6. With token collection requested, the collector is constructed on the preprocessor
  read from the instance as \<open>BeginSourceFile\<close> left it, which is the instance the action
  then runs on: in every run that returns an artifact, target creation and
  \<open>BeginSourceFile\<close> succeeded first, and the token buffer is what the collector on the
  preprocessor of that instance consumed, indexed.
\<close>

theorem collector_attached_after_begin:
  assumes "ExecuteAction fe ci kind True = Value info"
  shows "\<exists>act targeted infile others begun pp.
           makeAction kind = Some act
         \<and> createTarget fe ci = Some targeted
         \<and> Inputs (FrontendOpts targeted) = infile # others
         \<and> BeginSourceFile fe act targeted infile = Some begun
         \<and> Preprocessor begun = Some pp
         \<and> Execute fe act begun = Inr (compiler info)
         \<and> tokBuf info
             = Some (indexExpandedTokens (consume fe act begun \<lparr>collectorPP = pp\<rparr>))"
  using ExecuteAction_Value [OF assms]
  by (auto simp: consume_def indexExpandedTokens_def)

text \<open>
  The example instance holds preprocessor 7 before the action begins and
  \<open>BeginSourceFile\<close> replaces it by preprocessor 8: the buffer has the tokens of 8, and 7
  reports none.
\<close>

theorem collector_attached_after_begin_witness:
  "Preprocessor exampleInstance = Some 7
   \<and> ExecuteAction exampleFrontend exampleInstance ParseSyntaxOnly True
       = Value \<lparr>action = SyntaxOnlyAction,
                compiler = exampleInstance\<lparr>Preprocessor := Some 8\<rparr>,
                tokBuf = Some \<lparr>expandedTokens = [''int'', ''x;''], expandedTokIndexed = True\<rparr>\<rparr>
   \<and> lexedTokens exampleFrontend SyntaxOnlyAction (exampleInstance\<lparr>Preprocessor := Some 8\<rparr>) 8
       = [''int'', ''x;'']
   \<and> lexedTokens exampleFrontend SyntaxOnlyAction (exampleInstance\<lparr>Preprocessor := Some 8\<rparr>) 7
       = []"
proof -
  have run: "ExecuteAction exampleFrontend exampleInstance ParseSyntaxOnly True
       = Value \<lparr>action = SyntaxOnlyAction,
                compiler = exampleInstance\<lparr>Preprocessor := Some 8\<rparr>,
                tokBuf = Some \<lparr>expandedTokens = [''int'', ''x;''], expandedTokIndexed = True\<rparr>\<rparr>"
    by (simp add: pipeline_defs example_defs)
  from collector_attached_after_begin [OF run] run show ?thesis
    by (simp add: example_defs)
qed

text \<open>
  C7. The session \<open>buildPCH\<close> runs. With \<open>bnds\<close> the bounds computed from the text of the
  unit and \<open>session\<close> the instance handed to \<open>ExecuteAction\<close>: the output file is
  \<open>outpath\<close>, the program action is \<open>GeneratePCH\<close>, \<open>GeneratePreamble\<close> and \<open>CompilingPCH\<close>
  are set, and the text remapped for \<open>path\<close> is the first \<open>Size bnds\<close> bytes of the
  content. No reuse is applied: the precompiled preamble bytes are \<open>(0, false)\<close>, the
  predefines, the implicit PCH include, the validation setting and the header search
  options are as session construction left them, and the result does not depend on the
  \<open>pch\<close>, \<open>bounds\<close> and \<open>pcms\<close> supplied.
\<close>

theorem buildPCH_session:
  assumes "createInstance fe (args params) = Some created"
      and "mainpath params = path params"
      and "bnds = ComputePreamble fe (content params) defaultLangOptions 0"
      and "session = buildPCH_instance created params bnds"
  shows
   "buildPCH fe params
      = (case ExecuteAction fe session GeneratePCH True of
           Value ast \<Rightarrow>
             Value \<lparr>pchAST = ast, pchPath = outpath params, pchContent = content params,
                    pchMainpath = mainpath params, pchBounds = bnds\<rparr>
         | Error fmt causes \<Rightarrow> Error fmt causes
         | Fatal c \<Rightarrow> Fatal c)
    \<and> OutputFile (FrontendOpts session) = outpath params
    \<and> ProgramAction (FrontendOpts session) = GeneratePCH
    \<and> GeneratePreamble (PreprocessorOpts session) = True
    \<and> CompilingPCH (LangOpts session) = True
    \<and> RemappedFileBuffers (PreprocessorOpts session)
        = RemappedFileBuffers (PreprocessorOpts created)
          @ [(path params, take (unat (Size bnds)) (content params))]
    \<and> PrecompiledPreambleBytes (PreprocessorOpts session) = (0, False)
    \<and> UsePredefines (PreprocessorOpts session) = UsePredefines (PreprocessorOpts created)
    \<and> ImplicitPCHInclude (PreprocessorOpts session)
        = ImplicitPCHInclude (PreprocessorOpts created)
    \<and> DisablePCHOrModuleValidation (PreprocessorOpts session)
        = DisablePCHOrModuleValidation (PreprocessorOpts created)
    \<and> HeaderSearchOpts session = HeaderSearchOpts created
    \<and> buildPCH fe (params\<lparr>pch := anyPch, bounds := anyBounds, pcms := anyPcms\<rparr>)
        = buildPCH fe params"
proof -
  have run: "buildPCH fe params
      = (case ExecuteAction fe session GeneratePCH True of
           Value ast \<Rightarrow>
             Value \<lparr>pchAST = ast, pchPath = outpath params, pchContent = content params,
                    pchMainpath = mainpath params, pchBounds = bnds\<rparr>
         | Error fmt causes \<Rightarrow> Error fmt causes
         | Fatal c \<Rightarrow> Fatal c)"
    using assms(1,2) unfolding assms(4) assms(3) by (simp add: buildPCH_def Let_def)
  have opts: "OutputFile (FrontendOpts session) = outpath params"
    "ProgramAction (FrontendOpts session) = GeneratePCH"
    "GeneratePreamble (PreprocessorOpts session) = True"
    "CompilingPCH (LangOpts session) = True"
    "RemappedFileBuffers (PreprocessorOpts session)
        = RemappedFileBuffers (PreprocessorOpts created)
          @ [(path params, take (unat (Size bnds)) (content params))]"
    using assms(4)
    by (simp_all add: buildPCH_instance_def addRemappedFile_def substr0_def Let_def)
  have cold: "PrecompiledPreambleBytes (PreprocessorOpts session) = (0, False)"
    "UsePredefines (PreprocessorOpts session) = UsePredefines (PreprocessorOpts created)"
    "ImplicitPCHInclude (PreprocessorOpts session)
        = ImplicitPCHInclude (PreprocessorOpts created)"
    "DisablePCHOrModuleValidation (PreprocessorOpts session)
        = DisablePCHOrModuleValidation (PreprocessorOpts created)"
    "HeaderSearchOpts session = HeaderSearchOpts created"
    using assms(4)
    by (simp_all add: buildPCH_instance_def addRemappedFile_def Let_def)
  have indep: "buildPCH fe (params\<lparr>pch := anyPch, bounds := anyBounds, pcms := anyPcms\<rparr>)
        = buildPCH fe params"
    by (simp add: buildPCH_def buildPCH_instance_def Let_def
             cong: option.case_cong Outcome.case_cong if_cong)
  from run opts cold indep show ?thesis by simp
qed

text \<open>
  The preamble build of the example: of the 19 bytes of the content, the 13 bytes of the
  \<open>#include\<close> line are fed to the frontend, and the supplied \<open>old.pch\<close> with its 13 bytes
  and the module \<open>M\<close> are not applied.
\<close>

theorem buildPCH_session_witness:
  "mainpath exampleParams = path exampleParams
   \<and> pch exampleParams = ''old.pch''
   \<and> (case createInstance exampleFrontend (args exampleParams) of
         None \<Rightarrow> False
       | Some created \<Rightarrow>
           RemappedFileBuffers
             (PreprocessorOpts
                (buildPCH_instance created exampleParams
                   (ComputePreamble exampleFrontend (content exampleParams)
                      defaultLangOptions 0)))
             = [(''main.cpp'', ''#include <a>'' @ [CHR 0x0A])]
           \<and> ImplicitPCHInclude
               (PreprocessorOpts
                  (buildPCH_instance created exampleParams
                     (ComputePreamble exampleFrontend (content exampleParams)
                        defaultLangOptions 0)))
             = []
           \<and> OutputFile
               (FrontendOpts
                  (buildPCH_instance created exampleParams
                     (ComputePreamble exampleFrontend (content exampleParams)
                        defaultLangOptions 0)))
             = ''main.pch'')"
proof -
  obtain created where c: "createInstance exampleFrontend (args exampleParams) = Some created"
    using example_created by auto
  have same: "mainpath exampleParams = path exampleParams"
    by (simp add: exampleParams_def)
  from buildPCH_session [OF c same refl refl] c same show ?thesis
    by (auto simp: pipeline_defs example_defs)
qed

text \<open>
  C9 (as amended). Whatever \<open>bounds.Size\<close> is, also 0, \<open>applyPreamble\<close> registers the
  supplied modules: after the call a module name that the session had not registered is
  bound to the path of its first pair in \<open>pcms\<close>, and a name the session had already
  registered (from the command line) keeps its earlier path, since \<open>try_emplace\<close> does
  not overwrite. The registration is the same for every value of \<open>bounds\<close>.
\<close>

theorem applyPreamble_prebuilt_modules:
  "PrebuiltModuleFiles (HeaderSearchOpts (applyPreamble ci params)) name
     = (case PrebuiltModuleFiles (HeaderSearchOpts ci) name of
          Some old \<Rightarrow> Some old
        | None \<Rightarrow> map_of (pcms params) name)
   \<and> PrebuiltModuleFiles (HeaderSearchOpts (applyPreamble ci (params\<lparr>bounds := anyBounds\<rparr>))) name
     = PrebuiltModuleFiles (HeaderSearchOpts (applyPreamble ci params)) name"
  by (simp add: applyPreamble_def addPrebuiltModuleFiles_lookup)

text \<open>
  The claim as stated fails: with \<open>-fmodule-file=M=old.pcm\<close> on the command line, the
  supplied pair of \<open>M\<close> and \<open>M.pcm\<close> is not registered; \<open>M\<close> stays bound to \<open>old.pcm\<close>.
\<close>

theorem applyPreamble_prebuilt_modules_counterexample:
  "(''M'', ''M.pcm'') \<in> set (pcms exampleParams)
   \<and> (case createInstance exampleFrontend
               [''clang++'', ''-fmodule-file=M=old.pcm'', ''main.cpp''] of
         None \<Rightarrow> None
       | Some ci \<Rightarrow>
           PrebuiltModuleFiles (HeaderSearchOpts (applyPreamble ci exampleParams)) ''M'')
       = Some ''old.pcm''"
  by (simp add: pipeline_defs example_defs)

text \<open>
  C10. The four entry points pass \<open>ParseSyntaxOnly\<close>, \<open>GeneratePCH\<close> and
  \<open>GenerateReducedModuleInterface\<close>, for each of which \<open>ExecuteAction\<close> constructs an
  action; none of them ever ends in the branch for an unsupported kind.
\<close>

theorem unsupported_kind_unreachable:
  "makeAction ParseSyntaxOnly = Some SyntaxOnlyAction
   \<and> makeAction GeneratePCH = Some GeneratePCHAction
   \<and> makeAction GenerateReducedModuleInterface = Some GenerateReducedModuleInterfaceAction
   \<and> buildAST fe params \<noteq> Fatal UnsupportedActionKind
   \<and> buildPCH fe params \<noteq> Fatal UnsupportedActionKind
   \<and> buildPCM fe params \<noteq> Fatal UnsupportedActionKind
   \<and> codeCompleteAt fe params line column fileName consumer \<noteq> Fatal UnsupportedActionKind"
proof -
  have k: "makeAction ParseSyntaxOnly = Some SyntaxOnlyAction"
      "makeAction GeneratePCH = Some GeneratePCHAction"
      "makeAction GenerateReducedModuleInterface = Some GenerateReducedModuleInterfaceAction"
    by (simp_all add: makeAction_def)
  have "buildAST fe params \<noteq> Fatal UnsupportedActionKind"
    using ExecuteAction_supported [OF k(1)]
    by (simp add: buildAST_def split: option.splits)
  moreover have "buildPCH fe params \<noteq> Fatal UnsupportedActionKind"
    using ExecuteAction_supported [OF k(2)]
    by (auto simp: buildPCH_def Let_def split: option.splits Outcome.splits)
  moreover have "buildPCM fe params \<noteq> Fatal UnsupportedActionKind"
    using ExecuteAction_supported [OF k(3)]
    by (auto simp: buildPCM_def split: option.splits Outcome.splits)
  moreover have
    "codeCompleteAt fe params line column fileName consumer \<noteq> Fatal UnsupportedActionKind"
    using ExecuteAction_supported [OF k(1)]
    by (simp add: codeCompleteAt_def split: option.splits)
  ultimately show ?thesis using k by simp
qed

end
